theory Spec2Isabelle
  imports Main "HOL-Library.Sublist"
begin

section \<open>Strings of the Go runtime\<close>

text \<open>
  A Go string is a byte sequence, modelled as \<^typ>\<open>string\<close>. The library calls of
  package \<^verbatim>\<open>strings\<close> and the three regular expressions of the parser are written
  out below as they act on ASCII text, the alphabet of SQL schema files and of Go
  identifiers. \<^verbatim>\<open>HasPrefix\<close>, \<^verbatim>\<open>HasSuffix\<close>, \<^verbatim>\<open>TrimSuffix\<close>, \<^verbatim>\<open>Contains\<close>,
  \<^verbatim>\<open>Split\<close>, \<^verbatim>\<open>Join\<close> and \<^verbatim>\<open>ReplaceAll\<close> with a separator or pattern that is
  not empty work on bytes in Go as they do here. The case mappings and the white
  space are those of Go on ASCII strings only: on other strings \<^verbatim>\<open>strings.ToUpper\<close>
  and \<^verbatim>\<open>strings.ToLower\<close> also map the letters of Unicode beyond ASCII and rewrite
  bytes that are not UTF-8, and \<^verbatim>\<open>unicode.IsSpace\<close> also holds of the white space of
  Unicode beyond ASCII, while the definitions below leave every byte from 0x80
  on alone and take none of them for white space.
\<close>

definition lowerLetters :: string where
  "lowerLetters = ''abcdefghijklmnopqrstuvwxyz''"

definition upperLetters :: string where
  "upperLetters = ''ABCDEFGHIJKLMNOPQRSTUVWXYZ''"

definition toUpperChar :: "char \<Rightarrow> char" where
  "toUpperChar c = (case map_of (zip lowerLetters upperLetters) c of None \<Rightarrow> c | Some u \<Rightarrow> u)"

definition toLowerChar :: "char \<Rightarrow> char" where
  "toLowerChar c = (case map_of (zip upperLetters lowerLetters) c of None \<Rightarrow> c | Some l \<Rightarrow> l)"

text \<open>\<^verbatim>\<open>strings.ToUpper\<close> and \<^verbatim>\<open>strings.ToLower\<close>.\<close>

definition ToUpper :: "string \<Rightarrow> string" where
  "ToUpper s = map toUpperChar s"

definition ToLower :: "string \<Rightarrow> string" where
  "ToLower s = map toLowerChar s"

text \<open>\<^verbatim>\<open>unicode.IsSpace\<close> on ASCII: tab, line feed, vertical tab, form feed,
  carriage return, space.\<close>

definition isSpace :: "char \<Rightarrow> bool" where
  "isSpace c = (c \<in> set [CHR 0x09, CHR 0x0A, CHR 0x0B, CHR 0x0C, CHR 0x0D, CHR '' ''])"

text \<open>The class \<^verbatim>\<open>\s\<close> of Go's regexp syntax: as above without the vertical tab.\<close>

definition isReSpace :: "char \<Rightarrow> bool" where
  "isReSpace c = (c \<in> set [CHR 0x09, CHR 0x0A, CHR 0x0C, CHR 0x0D, CHR '' ''])"

text \<open>The class \<^verbatim>\<open>\w\<close>: letters, digits and the underscore.\<close>

definition isWord :: "char \<Rightarrow> bool" where
  "isWord c = (c \<in> set (lowerLetters @ upperLetters @ ''0123456789_''))"

definition isUpperAZ :: "char \<Rightarrow> bool" where
  "isUpperAZ c = (c \<in> set upperLetters)"

text \<open>\<^verbatim>\<open>strings.Contains s sub\<close>: \<open>sub\<close> occurs in \<open>s\<close> as a contiguous run.\<close>

fun Contains :: "string \<Rightarrow> string \<Rightarrow> bool" where
  "Contains [] sub = (sub = [])"
| "Contains (c # cs) sub = (prefix sub (c # cs) \<or> Contains cs sub)"

definition HasPrefix :: "string \<Rightarrow> string \<Rightarrow> bool" where
  "HasPrefix s p = prefix p s"

definition HasSuffix :: "string \<Rightarrow> string \<Rightarrow> bool" where
  "HasSuffix s x = suffix x s"

definition TrimSuffix :: "string \<Rightarrow> string \<Rightarrow> string" where
  "TrimSuffix s x = (if HasSuffix s x then take (length s - length x) s else s)"

definition TrimSpace :: "string \<Rightarrow> string" where
  "TrimSpace s = rev (dropWhile isSpace (rev (dropWhile isSpace s)))"

text \<open>\<^verbatim>\<open>strings.Fields\<close>: the maximal runs of bytes that are not white space. The
  first argument holds the run being read, last byte first.\<close>

fun fieldsFrom :: "string \<Rightarrow> string \<Rightarrow> string list" where
  "fieldsFrom cur [] = (if cur = [] then [] else [rev cur])"
| "fieldsFrom cur (c # cs) =
     (if isSpace c then (if cur = [] then fieldsFrom [] cs else rev cur # fieldsFrom [] cs)
      else fieldsFrom (c # cur) cs)"

definition Fields :: "string \<Rightarrow> string list" where
  "Fields s = fieldsFrom [] s"

text \<open>\<^verbatim>\<open>strings.Split\<close> with a separator of one byte: always at least one part.\<close>

fun Split :: "string \<Rightarrow> char \<Rightarrow> string list" where
  "Split [] sep = [[]]"
| "Split (c # cs) sep =
     (if c = sep then [] # Split cs sep
      else (case Split cs sep of [] \<Rightarrow> [[c]] | p # ps \<Rightarrow> (c # p) # ps))"

text \<open>\<^verbatim>\<open>strings.Join\<close>.\<close>

fun Join :: "string list \<Rightarrow> string \<Rightarrow> string" where
  "Join [] sep = []"
| "Join [p] sep = p"
| "Join (p # q # ps) sep = p @ sep @ Join (q # ps) sep"

text \<open>\<^verbatim>\<open>strings.ReplaceAll\<close>: the occurrences of \<open>old\<close> are found from the left and do
  not overlap. For an empty \<open>old\<close> Go inserts \<open>new\<close> before every byte and at the end.\<close>

function ReplaceAll :: "string \<Rightarrow> string \<Rightarrow> string \<Rightarrow> string" where
  "ReplaceAll s old new =
     (if old = [] then new @ concat (map (\<lambda>c. c # new) s)
      else if s = [] then []
      else if prefix old s then new @ ReplaceAll (drop (length old) s) old new
      else hd s # ReplaceAll (tl s) old new)"
  by pat_completeness auto
termination
  by (relation "measure (\<lambda>(s, old, new). length s)") (auto simp: neq_Nil_conv)

declare ReplaceAll.simps [simp del]

subsection \<open>The regular expressions of the parser\<close>

text \<open>A literal of upper-case letters under the flag \<^verbatim>\<open>(?i)\<close> matches each letter in
  either case.\<close>

definition foldPrefix :: "string \<Rightarrow> string \<Rightarrow> bool" where
  "foldPrefix lit s = (length lit \<le> length s \<and> ToUpper (take (length lit) s) = lit)"

text \<open>\<^verbatim>\<open>(?i)CREATE\s+TABLE\s+(\w+)\s*\(\<close> matched at the start of \<open>s\<close>; the result is
  the group. The classes \<^verbatim>\<open>\s\<close>, \<^verbatim>\<open>\w\<close> and the bytes that follow them exclude each
  other, so every repetition takes its longest run.\<close>

definition createTableAt :: "string \<Rightarrow> string option" where
  "createTableAt s =
     (if \<not> foldPrefix ''CREATE'' s then None
      else let r1 = drop 6 s in
        if takeWhile isReSpace r1 = [] then None
        else let r2 = dropWhile isReSpace r1 in
          if \<not> foldPrefix ''TABLE'' r2 then None
          else let r3 = drop 5 r2 in
            if takeWhile isReSpace r3 = [] then None
            else let r4 = dropWhile isReSpace r3; name = takeWhile isWord r4 in
              if name = [] then None
              else (case dropWhile isReSpace (dropWhile isWord r4) of
                      [] \<Rightarrow> None
                    | c # _ \<Rightarrow> if c = CHR ''('' then Some name else None))"

text \<open>\<^verbatim>\<open>FindStringSubmatch\<close>: the leftmost match.\<close>

fun createTableRegex :: "string \<Rightarrow> string option" where
  "createTableRegex [] = None"
| "createTableRegex (c # cs) =
     (case createTableAt (c # cs) of Some name \<Rightarrow> Some name | None \<Rightarrow> createTableRegex cs)"

text \<open>\<^verbatim>\<open>(?i)DEFAULT\s+([^,\s]+)\<close>, in the same way.\<close>

definition defaultAt :: "string \<Rightarrow> string option" where
  "defaultAt s =
     (if \<not> foldPrefix ''DEFAULT'' s then None
      else let r1 = drop 7 s in
        if takeWhile isReSpace r1 = [] then None
        else let v = takeWhile (\<lambda>c. c \<noteq> CHR '','' \<and> \<not> isReSpace c) (dropWhile isReSpace r1) in
          if v = [] then None else Some v)"

fun defaultRegex :: "string \<Rightarrow> string option" where
  "defaultRegex [] = None"
| "defaultRegex (c # cs) =
     (case defaultAt (c # cs) of Some v \<Rightarrow> Some v | None \<Rightarrow> defaultRegex cs)"

text \<open>\<^verbatim>\<open>^([A-Z]+)\<close> under \<^verbatim>\<open>FindString\<close>: the leading run of upper-case
  letters, empty when there is none.\<close>

definition baseTypeOf :: "string \<Rightarrow> string" where
  "baseTypeOf sqlType = takeWhile isUpperAZ sqlType"

section \<open>The schema model\<close>

record Column =
  Name :: string
  Type :: string
  IsPrimaryKey :: bool
  IsNullable :: bool
  DefaultValue :: string
  GoType :: string
  GormTag :: string
  JSONTag :: string

record Table =
  TableName :: string
  Columns :: "Column list"

section \<open>The schema parser\<close>

definition constraintKeywords :: "string list" where
  "constraintKeywords =
     [''CONSTRAINT'', ''PRIMARY KEY'', ''FOREIGN KEY'', ''UNIQUE'', ''CHECK'', ''INDEX'']"

text \<open>\<^verbatim>\<open>parseColumnDefinition\<close>: \<open>None\<close> is the nil pointer, a line that yields no
  column.\<close>

definition parseColumnDefinition :: "string \<Rightarrow> Column option" where
  "parseColumnDefinition line0 =
     (let line = TrimSuffix (TrimSpace line0) '',''; lineUpper = ToUpper line in
      if list_ex (\<lambda>keyword. Contains lineUpper keyword) constraintKeywords then None
      else case Fields line of
          [] \<Rightarrow> None
        | [_] \<Rightarrow> None
        | p0 # p1 # rest \<Rightarrow>
            let columnType =
                  (if rest \<noteq> [] \<and> ToUpper p1 = ''DOUBLE'' \<and> ToUpper (hd rest) = ''PRECISION''
                   then ''DOUBLE PRECISION'' else p1);
                fullLine = ToUpper line
            in Some \<lparr> Name = p0, Type = columnType,
                      IsPrimaryKey = Contains fullLine ''PRIMARY KEY'',
                      IsNullable = \<not> Contains fullLine ''NOT NULL'',
                      DefaultValue = (case defaultRegex line of Some v \<Rightarrow> v | None \<Rightarrow> []),
                      GoType = [], GormTag = [], JSONTag = [] \<rparr>)"

text \<open>\<^verbatim>\<open>generateGoFieldInfo\<close>: the Go type and the two struct tags of a column. The
  switch over the base type is kept in the order of the source.\<close>

definition goTypeFor :: "string \<Rightarrow> bool \<Rightarrow> string" where
  "goTypeFor baseType isPrimaryKey =
     (if baseType \<in> set [''INT'', ''INTEGER'', ''SERIAL'', ''BIGSERIAL'', ''BIGINT'']
        then (if isPrimaryKey then ''int64'' else ''int64'')
      else if baseType \<in> set [''VARCHAR'', ''TEXT'', ''CHAR''] then ''string''
      else if baseType \<in> set [''JSONB'', ''JSON''] then ''[]string''
      else if baseType \<in> set [''BOOLEAN'', ''BOOL''] then ''bool''
      else if baseType \<in> set [''TIMESTAMP'', ''DATETIME''] then ''time.Time''
      else if baseType = ''DATE'' then ''time.Time''
      else if baseType \<in> set [''DECIMAL'', ''NUMERIC'', ''FLOAT'', ''REAL'', ''DOUBLE'',
                                ''DOUBLE PRECISION''] then ''float64''
      else if baseType = ''UUID'' then ''string''
      else ''string'')"

definition gormParts :: "Column \<Rightarrow> string list" where
  "gormParts column =
     [''column:'' @ ToLower (Name column)]
     @ (if IsPrimaryKey column then [''primarykey''] else [])
     @ (if \<not> IsNullable column then [''not null''] else [])
     @ (if Contains (ToUpper (Type column)) ''JSONB'' then [''type:jsonb'']
        else if Contains (ToUpper (Type column)) ''JSON'' then [''type:json'']
        else [])"

definition generateGoFieldInfo :: "Column \<Rightarrow> Column" where
  \<open>generateGoFieldInfo column =
     column \<lparr> GoType := goTypeFor (baseTypeOf (ToUpper (Type column))) (IsPrimaryKey column),
              GormTag := ''gorm:"'' @ Join (gormParts column) '';'' @ ''"'',
              JSONTag := ''json:"'' @ Name column @ '',omitempty"'' \<rparr>\<close>

text \<open>\<^verbatim>\<open>parseSQLSchema\<close>. The scanner hands the file over line by line; the loop keeps
  the tables closed so far, the table being read and the flag
  \<^verbatim>\<open>inTableDefinition\<close>.\<close>

record ParserState =
  tables :: "Table list"
  currentTable :: "Table option"
  inTableDefinition :: bool

definition scanLine :: "ParserState \<Rightarrow> string \<Rightarrow> ParserState" where
  "scanLine st raw =
     (let line = TrimSpace raw in
      if HasPrefix line ''--'' \<or> HasPrefix line ''/*'' \<or> line = [] then st
      else case createTableRegex line of
          Some tableName \<Rightarrow>
            st \<lparr> currentTable := Some \<lparr> TableName = tableName, Columns = [] \<rparr>,
                 inTableDefinition := True \<rparr>
        | None \<Rightarrow>
            if inTableDefinition st \<and> Contains line '');'' then
              (case currentTable st of
                 Some t \<Rightarrow> st \<lparr> tables := tables st @ [t], currentTable := None,
                                 inTableDefinition := False \<rparr>
               | None \<Rightarrow> st \<lparr> inTableDefinition := False \<rparr>)
            else if inTableDefinition st then
              (case currentTable st of
                 Some t \<Rightarrow>
                   (case parseColumnDefinition line of
                      Some column \<Rightarrow>
                        st \<lparr> currentTable := Some (t \<lparr> Columns := Columns t @ [column] \<rparr>) \<rparr>
                    | None \<Rightarrow> st)
               | None \<Rightarrow> st)
            else st)"

definition initialState :: ParserState where
  "initialState = \<lparr> tables = [], currentTable = None, inTableDefinition = False \<rparr>"

definition withFieldInfo :: "Table \<Rightarrow> Table" where
  "withFieldInfo t = t \<lparr> Columns := map generateGoFieldInfo (Columns t) \<rparr>"

definition parseLines :: "string list \<Rightarrow> Table list" where
  "parseLines ls = map withFieldInfo (tables (foldl scanLine initialState ls))"

text \<open>The file itself: it cannot be opened, the scanner fails while reading it, or it
  is read to the end.\<close>

datatype SourceFile = OpenFails | ScanFails | Lines "string list"

datatype ParseError = FailedToOpen | ErrorReading

fun parseSQLSchema :: "SourceFile \<Rightarrow> ParseError + Table list" where
  "parseSQLSchema OpenFails = Inl FailedToOpen"
| "parseSQLSchema ScanFails = Inl ErrorReading"
| "parseSQLSchema (Lines ls) = Inr (parseLines ls)"

section \<open>The identifier normaliser\<close>

text \<open>The expression \<^verbatim>\<open>strings.ToUpper(string(parts[i][0]))\<close> of \<^verbatim>\<open>toCamelCase\<close>
  takes one byte of the part. Go's conversion \<^verbatim>\<open>string(b)\<close> of a byte is the UTF-8
  encoding of the code point with the number of the byte: the byte itself below
  0x80, two bytes from 0x80 on. \<^verbatim>\<open>strings.ToUpper\<close> then maps that one code point:
  an ASCII letter to its upper case, U+00B5 to U+039C, U+00E0 to U+00FE without
  U+00F7 down by 0x20, U+00FF to U+0178, and every other code point up to U+00FF
  to itself.\<close>

definition utf8TwoBytes :: "nat \<Rightarrow> string" where
  "utf8TwoBytes n = [char_of (192 + n div 64), char_of (128 + n mod 64)]"

definition upperOfByte :: "char \<Rightarrow> string" where
  "upperOfByte b =
     (let n = (of_char b :: nat) in
      if n < 128 then [toUpperChar b]
      else if n = 181 then utf8TwoBytes 924
      else if (224 \<le> n \<and> n \<le> 246) \<or> (248 \<le> n \<and> n \<le> 254) then utf8TwoBytes (n - 32)
      else if n = 255 then utf8TwoBytes 376
      else utf8TwoBytes n)"

text \<open>\<^verbatim>\<open>toCamelCase\<close>: the body of its loop, applied to one part of the lower-cased
  name, and the function itself.\<close>

definition camelPart :: "string \<Rightarrow> string" where
  "camelPart part =
     (if length part > 0 then
        (if part = ''id'' then ''ID'' else upperOfByte (hd part) @ tl part)
      else part)"

definition toCamelCase :: "string \<Rightarrow> string" where
  "toCamelCase s = Join (map camelPart (Split (ToLower s) (CHR ''_''))) []"

text \<open>The generators derive the entity name from the table name by dropping one
  trailing \<^verbatim>\<open>s\<close>: \<^verbatim>\<open>if strings.HasSuffix(structName, "s") { structName =
  structName[:len(structName)-1] }\<close>.\<close>

definition singularize :: "string \<Rightarrow> string" where
  "singularize structName =
     (if HasSuffix structName ''s'' then take (length structName - 1) structName
      else structName)"

definition structNameOf :: "Table \<Rightarrow> string" where
  "structNameOf table = singularize (toCamelCase (TableName table))"

section \<open>The template engine\<close>

text \<open>\<^verbatim>\<open>replaceTemplateVariables\<close>. Go ranges over the map of bindings in an order of
  the runtime's choosing; the list argument is the bindings in the order in which
  the loop meets them.\<close>

definition placeholder :: "string \<Rightarrow> string" where
  "placeholder key = ''<'' @ key @ ''>''"

definition replaceTemplateVariables :: "string \<Rightarrow> (string \<times> string) list \<Rightarrow> string" where
  "replaceTemplateVariables template variables =
     foldl (\<lambda>result (key, val). ReplaceAll result (placeholder key) val) template variables"

datatype TemplateError = FailedToReadTemplate string

text \<open>\<^verbatim>\<open>processTemplate\<close>; the first argument is \<^verbatim>\<open>loadTemplate\<close>, the read of the
  template file, which fails when the file is missing.\<close>

definition processTemplate ::
  "(string \<Rightarrow> string option) \<Rightarrow> string \<Rightarrow> (string \<times> string) list \<Rightarrow> TemplateError + string" where
  "processTemplate loadTemplate templateName variables =
     (case loadTemplate templateName of
        None \<Rightarrow> Inl (FailedToReadTemplate templateName)
      | Some template \<Rightarrow> Inr (replaceTemplateVariables template variables))"

section \<open>The per-table generators\<close>

definition tab :: string where
  "tab = [CHR 0x09]"

definition nl :: string where
  "nl = [CHR 0x0A]"

text \<open>The conditions under which the field loops of \<^verbatim>\<open>generateDomainModel\<close> and of
  \<^verbatim>\<open>generateDTO\<close> pass over a column.\<close>

definition domainModelSkips :: "string \<Rightarrow> bool" where
  "domainModelSkips colName =
     (ToLower colName = ''created_at'' \<or> ToLower colName = ''updated_at'' \<or>
      ToLower colName = ''deleted_at'' \<or> ToLower colName = ''is_deleted'')"

definition dtoSkips :: "string \<Rightarrow> bool" where
  "dtoSkips colName =
     (ToLower colName = ''id'' \<or> ToLower colName = ''created_at'' \<or>
      ToLower colName = ''updated_at'' \<or> ToLower colName = ''deleted_at'' \<or>
      ToLower colName = ''is_deleted'')"

text \<open>\<^verbatim>\<open>generateDomainModel\<close>: the value bound to \<^verbatim>\<open>fields\<close>, then all bindings handed
  to the template \<^verbatim>\<open>domain-model\<close>.\<close>

definition domainModelHasID :: "Table \<Rightarrow> bool" where
  "domainModelHasID table = list_ex (\<lambda>col. ToLower (Name col) = ''id'') (Columns table)"

definition domainModelField :: "Column \<Rightarrow> string" where
  \<open>domainModelField col =
     (if domainModelSkips (Name col) then []
      else tab @ toCamelCase (Name col) @ '' '' @ GoType col @ '' `'' @ GormTag col @ '' ''
           @ JSONTag col @ ''`'' @ nl)\<close>

definition domainModelFields :: "Table \<Rightarrow> string" where
  "domainModelFields table =
     (if \<not> domainModelHasID table then tab @ ''MetaField'' @ nl else [])
     @ concat (map domainModelField (Columns table))"

definition getImportStatement :: "Table \<Rightarrow> string" where
  \<open>getImportStatement table =
     (if list_ex (\<lambda>col. \<not> (ToLower (Name col) = ''created_at'' \<or>
                            ToLower (Name col) = ''updated_at'' \<or>
                            ToLower (Name col) = ''deleted_at'') \<and>
                         GoType col = ''time.Time'') (Columns table)
      then ''import "time"'' else [])\<close>

definition domainModelVariables :: "Table \<Rightarrow> (string \<times> string) list" where
  "domainModelVariables table =
     [(''import_statement'', getImportStatement table),
      (''struct_name'', structNameOf table),
      (''entity_name'', ToLower (structNameOf table)),
      (''fields'', domainModelFields table),
      (''table_name'', TableName table)]"

text \<open>\<^verbatim>\<open>generateDTO\<close>, in the same way, for the template \<^verbatim>\<open>dto\<close>.\<close>

definition dtoField :: "Column \<Rightarrow> string" where
  \<open>dtoField col =
     (if dtoSkips (Name col) then []
      else tab @ toCamelCase (Name col) @ '' '' @ GoType col @ '' ''
           @ ''`json:"'' @ ToLower (Name col) @ '',omitempty"`'' @ nl)\<close>

definition dtoFields :: "Table \<Rightarrow> string" where
  \<open>dtoFields table =
     tab @ ''ID int64 `json:"id,omitempty"`'' @ nl @ concat (map dtoField (Columns table))\<close>

definition marshalField :: "Column \<Rightarrow> string" where
  "marshalField col =
     (if dtoSkips (Name col) then []
      else nl @ tab @ tab @ toCamelCase (Name col) @ '': d.'' @ toCamelCase (Name col) @ '','')"

definition unmarshalField :: "Column \<Rightarrow> string" where
  "unmarshalField col =
     (if dtoSkips (Name col) then []
      else nl @ tab @ ''d.'' @ toCamelCase (Name col) @ '' = domainModel.''
           @ toCamelCase (Name col))"

definition getDTOImportStatement :: "Table \<Rightarrow> string" where
  \<open>getDTOImportStatement table =
     (if list_ex (\<lambda>col. \<not> dtoSkips (Name col) \<and> GoType col = ''time.Time'') (Columns table)
      then tab @ ''"time"'' else [])\<close>

definition dtoVariables :: "string \<Rightarrow> Table \<Rightarrow> (string \<times> string) list" where
  "dtoVariables moduleName table =
     [(''module_name'', moduleName),
      (''dto_struct_name'', structNameOf table),
      (''entity_name'', ToLower (structNameOf table)),
      (''fields'', dtoFields table),
      (''plural_name'', structNameOf table @ ''s''),
      (''struct_name'', structNameOf table),
      (''import_statement'', getDTOImportStatement table),
      (''marshal_fields'', concat (map marshalField (Columns table))),
      (''unmarshal_fields'', concat (map unmarshalField (Columns table)))]"

section \<open>The migration synthesiser\<close>

text \<open>\<^verbatim>\<open>mapGoTypeToPGType\<close>, used when a column carries no source type.\<close>

definition mapGoTypeToPGType :: "string \<Rightarrow> string \<Rightarrow> string" where
  "mapGoTypeToPGType goType columnName =
     (let lowerName = ToLower columnName in
      if lowerName = ''id'' then ''BIGSERIAL''
      else if HasSuffix lowerName ''_id'' \<and>
              (goType = ''int64'' \<or> goType = ''uint'' \<or> goType = ''int'') then ''BIGINT''
      else if lowerName = ''created_at'' \<or> lowerName = ''updated_at'' \<or>
              lowerName = ''deleted_at'' then ''TIMESTAMPTZ''
      else if Contains lowerName ''timestamp'' \<or> Contains lowerName ''_ts'' \<or>
              lowerName = ''key_time'' then ''BIGINT''
      else if lowerName = ''state'' \<and> (goType = ''string'' \<or> goType = ''[]byte'') then ''JSONB''
      else if goType = ''[]int'' then ''JSONB''
      else if goType = ''string'' then
        (if Contains lowerName ''type'' \<or> lowerName = ''activity_flag'' \<or>
            lowerName = ''awake_state'' \<or> lowerName = ''light_state'' \<or>
            lowerName = ''deep_state'' \<or> lowerName = ''rem_state'' then ''INTEGER''
         else if Contains lowerName ''name'' \<or>
                 Contains lowerName ''id'' \<and> \<not> HasSuffix lowerName ''_id'' then ''TEXT''
         else ''TEXT'')
      else if goType = ''int'' \<or> goType = ''int32'' then ''INTEGER''
      else if goType = ''int64'' then ''BIGINT''
      else if goType = ''float32'' then ''REAL''
      else if goType = ''float64'' then ''DOUBLE PRECISION''
      else if goType = ''bool'' then ''BOOLEAN''
      else if goType = ''time.Time'' then ''TIMESTAMPTZ''
      else if goType = ''[]byte'' then ''BYTEA''
      else if list_ex (Contains lowerName)
                [''count'', ''battery'', ''mins'', ''hr'', ''pp'', ''idx''] then ''INTEGER''
      else if list_ex (Contains lowerName)
                [''distance'', ''calories'', ''threshold'', ''psv'', ''conv_'', ''pwm'', ''rr'',
                 ''psf'', ''lf'', ''hf'', ''rmssd'', ''tatpim'', ''bmr'', ''sdhr'']
           then ''DOUBLE PRECISION''
      else ''TEXT'')"

text \<open>\<^verbatim>\<open>generateColumnDefinition\<close>.\<close>

definition generateColumnDefinition :: "Column \<Rightarrow> string" where
  "generateColumnDefinition col =
     Name col @ '' ''
     @ (if Type col \<noteq> [] then Type col else mapGoTypeToPGType (GoType col) (Name col))
     @ (if IsPrimaryKey col then '' PRIMARY KEY'' else [])
     @ (if \<not> IsNullable col \<and> \<not> IsPrimaryKey col then '' NOT NULL'' else [])
     @ (if DefaultValue col \<noteq> [] \<and> \<not> IsPrimaryKey col
        then '' DEFAULT '' @ DefaultValue col else [])"

text \<open>\<^verbatim>\<open>generateCreateTable\<close>. Its first loop records which columns of the Meta
  Contract the table declares; \<open>markMeta\<close> is the switch of that loop.\<close>

record MetaFlags =
  hasID :: bool
  hasCreatedAt :: bool
  hasUpdatedAt :: bool
  hasDeletedAt :: bool
  hasIsDeleted :: bool

definition noMetaFlags :: MetaFlags where
  "noMetaFlags = \<lparr> hasID = False, hasCreatedAt = False, hasUpdatedAt = False,
                    hasDeletedAt = False, hasIsDeleted = False \<rparr>"

definition markMeta :: "MetaFlags \<Rightarrow> string \<Rightarrow> MetaFlags" where
  "markMeta flags lowerName =
     (if lowerName = ''id'' then flags \<lparr> hasID := True \<rparr>
      else if lowerName = ''created_at'' then flags \<lparr> hasCreatedAt := True \<rparr>
      else if lowerName = ''updated_at'' then flags \<lparr> hasUpdatedAt := True \<rparr>
      else if lowerName = ''deleted_at'' then flags \<lparr> hasDeletedAt := True \<rparr>
      else if lowerName = ''is_deleted'' then flags \<lparr> hasIsDeleted := True \<rparr>
      else flags)"

definition metaFlagsOf :: "Column list \<Rightarrow> MetaFlags" where
  "metaFlagsOf cols = foldl (\<lambda>flags col. markMeta flags (ToLower (Name col))) noMetaFlags cols"

definition qualifiedName :: "Table \<Rightarrow> string \<Rightarrow> string" where
  "qualifiedName table schema =
     (if schema \<noteq> [] then schema @ ''.'' @ TableName table else TableName table)"

definition generateCreateTable :: "Table \<Rightarrow> string \<Rightarrow> string" where
  "generateCreateTable table schema =
     (let flags = metaFlagsOf (Columns table);
          sql = ''CREATE TABLE IF NOT EXISTS '' @ qualifiedName table schema @ '' ('' @ nl
                @ (if \<not> hasID flags then ''    id BIGSERIAL PRIMARY KEY,'' @ nl else [])
                @ concat (map (\<lambda>col. ''    '' @ generateColumnDefinition col @ '','' @ nl)
                            (Columns table))
                @ (if \<not> hasCreatedAt flags
                   then ''    created_at TIMESTAMPTZ DEFAULT NOW(),'' @ nl else [])
                @ (if \<not> hasUpdatedAt flags
                   then ''    updated_at TIMESTAMPTZ DEFAULT NOW(),'' @ nl else [])
                @ (if \<not> hasDeletedAt flags then ''    deleted_at TIMESTAMPTZ,'' @ nl else [])
      in (if \<not> hasIsDeleted flags then sql @ ''    is_deleted BOOLEAN DEFAULT FALSE'' @ nl
          else TrimSuffix sql ('','' @ nl) @ nl)
         @ '');'')"

text \<open>\<^verbatim>\<open>generateIndexes\<close> and \<^verbatim>\<open>generateDropIndexes\<close> share the test of a column.\<close>

definition indexed :: "Column \<Rightarrow> bool" where
  "indexed col =
     (let lowerName = ToLower (Name col) in
      Contains lowerName ''user_id'' \<or>
      Contains lowerName ''_id'' \<and> \<not> IsPrimaryKey col \<or>
      lowerName = ''timestamp'' \<or> lowerName = ''key_time'' \<or>
      lowerName = ''start_ts'' \<or> lowerName = ''end_ts'')"

definition schemaPrefix :: "string \<Rightarrow> string" where
  "schemaPrefix schema = (if schema \<noteq> [] then schema @ ''.'' else [])"

definition createIndexLine :: "Table \<Rightarrow> string \<Rightarrow> Column \<Rightarrow> string" where
  "createIndexLine table schema col =
     ''CREATE INDEX IF NOT EXISTS '' @ schemaPrefix schema
     @ ''idx_'' @ TableName table @ ''_'' @ Name col
     @ '' ON '' @ qualifiedName table schema @ ''('' @ Name col @ '');'' @ nl"

definition generateIndexes :: "Table \<Rightarrow> string \<Rightarrow> string" where
  "generateIndexes table schema =
     concat (map (createIndexLine table schema) (filter indexed (Columns table)))"

definition dropIndexLine :: "Table \<Rightarrow> string \<Rightarrow> Column \<Rightarrow> string" where
  "dropIndexLine table schema col =
     ''DROP INDEX IF EXISTS '' @ schemaPrefix schema
     @ ''idx_'' @ TableName table @ ''_'' @ Name col @ '';'' @ nl"

definition generateDropIndexes :: "Table \<Rightarrow> string \<Rightarrow> string" where
  "generateDropIndexes table schema =
     concat (map (dropIndexLine table schema) (filter indexed (Columns table)))"

text \<open>\<^verbatim>\<open>generateGooseMigration\<close> up to the rendering of its template: the bindings it
  builds, and nothing at all for an empty list of tables. The DROP TABLE lines are
  written in table order, then split at the line ends and put together again from
  the last line to the first.\<close>

definition dropTableLine :: "Table \<Rightarrow> string \<Rightarrow> string" where
  "dropTableLine table schema = ''DROP TABLE IF EXISTS '' @ qualifiedName table schema @ '';''"

definition tableDrops :: "Table list \<Rightarrow> string \<Rightarrow> string" where
  "tableDrops tbls schema = concat (map (\<lambda>table. dropTableLine table schema @ nl) tbls)"

definition reversedDrops :: "Table list \<Rightarrow> string \<Rightarrow> string" where
  "reversedDrops tbls schema =
     concat (map (\<lambda>l. l @ nl)
       (filter (\<lambda>l. l \<noteq> []) (rev (Split (TrimSpace (tableDrops tbls schema)) (CHR 0x0A)))))"

definition tableCreations :: "Table list \<Rightarrow> string \<Rightarrow> string" where
  "tableCreations tbls schema =
     concat (map (\<lambda>table. generateCreateTable table schema @ nl) tbls)"

definition gooseMigrationVariables ::
  "Table list \<Rightarrow> string \<Rightarrow> (string \<times> string) list option" where
  \<open>gooseMigrationVariables tbls schema =
     (if length tbls = 0 then None
      else Some
        [(''schema_creation'',
            if schema \<noteq> [] then ''CREATE SCHEMA IF NOT EXISTS "'' @ schema @ ''";'' @ nl @ nl
            else []),
         (''table_creations'', tableCreations tbls schema),
         (''index_creations'', concat (map (\<lambda>table. generateIndexes table schema) tbls)),
         (''index_drops'', concat (map (\<lambda>table. generateDropIndexes table schema) tbls)),
         (''table_drops'', reversedDrops tbls schema),
         (''schema_drops'',
            if schema \<noteq> [] then ''DROP SCHEMA IF EXISTS "'' @ schema @ ''" CASCADE;'' @ nl
            else [])])\<close>

text \<open>The schema name that \<^verbatim>\<open>generateAllFiles\<close> passes on.\<close>

definition migrationSchema :: "string \<Rightarrow> string" where
  "migrationSchema moduleName = (if moduleName = ''wearable-service'' then ''wearable'' else [])"

section \<open>The compilation run\<close>

text \<open>\<^verbatim>\<open>createHexagonalArchitecture\<close> acts on the file system of the host. The state of
  that file system is a value of any type \<open>'w\<close>; what the run does to it, it does
  through the operations of the host, each of which returns whether it succeeded and
  the state it leaves. A path is the list of the names that \<^verbatim>\<open>filepath.Join\<close> puts
  together. The lines printed on the console are not part of the model.\<close>

record 'w Host =
  openSchema :: "string \<Rightarrow> SourceFile"
  mkdirAll :: "string list \<Rightarrow> 'w \<Rightarrow> bool \<times> 'w"
  generateAllFiles :: "string \<Rightarrow> Table list \<Rightarrow> 'w \<Rightarrow> bool \<times> 'w"
  formatGeneratedFiles :: "string \<Rightarrow> 'w \<Rightarrow> bool \<times> 'w"
  initializeGoModule :: "string \<Rightarrow> 'w \<Rightarrow> bool \<times> 'w"

datatype RunError =
    FailedToParse ParseError
  | NoTablesFound string
  | FailedToCreateDirectories
  | FailedToGenerateFiles
  | FailedToInitializeModule

definition folders :: "string \<Rightarrow> string list list" where
  "folders moduleName =
     [[moduleName],
      [moduleName, ''cmd'', moduleName],
      [moduleName, ''build''],
      [moduleName, ''internal'', ''application''],
      [moduleName, ''internal'', ''application'', ''dto''],
      [moduleName, ''internal'', ''domain'', ''model''],
      [moduleName, ''internal'', ''interactor''],
      [moduleName, ''internal'', ''interactor'', ''rest''],
      [moduleName, ''internal'', ''interactor'', ''grpc''],
      [moduleName, ''internal'', ''repository''],
      [moduleName, ''internal'', ''repository'', ''implementor'', ''postgres''],
      [moduleName, ''internal'', ''repository'', ''implementor'', ''cache''],
      [moduleName, ''pkg''],
      [moduleName, ''script'']]"

fun createFolders :: "'w Host \<Rightarrow> string list list \<Rightarrow> 'w \<Rightarrow> bool \<times> 'w" where
  "createFolders host [] w = (True, w)"
| "createFolders host (folder # rest) w =
     (case mkdirAll host folder w of
        (False, w') \<Rightarrow> (False, w')
      | (True, w') \<Rightarrow> createFolders host rest w')"

definition createDirectoryStructure :: "'w Host \<Rightarrow> string \<Rightarrow> 'w \<Rightarrow> bool \<times> 'w" where
  "createDirectoryStructure host moduleName w = createFolders host (folders moduleName) w"

definition createHexagonalArchitecture ::
  "'w Host \<Rightarrow> string \<Rightarrow> string \<Rightarrow> 'w \<Rightarrow> RunError option \<times> 'w" where
  "createHexagonalArchitecture host moduleName sqlSchemaFile w =
     (case parseSQLSchema (openSchema host sqlSchemaFile) of
        Inl err \<Rightarrow> (Some (FailedToParse err), w)
      | Inr tbls \<Rightarrow>
          if length tbls = 0 then (Some (NoTablesFound sqlSchemaFile), w)
          else
            (case createDirectoryStructure host moduleName w of
               (False, w1) \<Rightarrow> (Some FailedToCreateDirectories, w1)
             | (True, w1) \<Rightarrow>
                 (case generateAllFiles host moduleName tbls w1 of
                    (False, w2) \<Rightarrow> (Some FailedToGenerateFiles, w2)
                  | (True, w2) \<Rightarrow>
                      (case initializeGoModule host moduleName
                              (snd (formatGeneratedFiles host moduleName w2)) of
                         (False, w3) \<Rightarrow> (Some FailedToInitializeModule, w3)
                       | (True, w3) \<Rightarrow> (None, w3)))))"

section \<open>Notions used in the statements\<close>

text \<open>No column of the table, or of the parser's state, is marked as primary key.\<close>

definition flagsClear :: "Table \<Rightarrow> bool" where
  "flagsClear t = (\<forall>c \<in> set (Columns t). \<not> IsPrimaryKey c)"

definition stateClear :: "ParserState \<Rightarrow> bool" where
  "stateClear st = ((\<forall>t \<in> set (tables st). flagsClear t) \<and>
                    (\<forall>t. currentTable st = Some t \<longrightarrow> flagsClear t))"

text \<open>The name of the table is made of the bytes of the class \<^verbatim>\<open>\w\<close>.\<close>

definition wordNamed :: "Table \<Rightarrow> bool" where
  "wordNamed t = (\<forall>c \<in> set (TableName t). isWord c)"

definition stateWordNamed :: "ParserState \<Rightarrow> bool" where
  "stateWordNamed st = ((\<forall>t \<in> set (tables st). wordNamed t) \<and>
                        (\<forall>t. currentTable st = Some t \<longrightarrow> wordNamed t))"

text \<open>The migration generator takes a column for one of the Meta Contract when the
  switch of its first loop sets a flag for it.\<close>

definition migrationRecognises :: "string \<Rightarrow> bool" where
  "migrationRecognises colName = (markMeta noMetaFlags (ToLower colName) \<noteq> noMetaFlags)"

text \<open>The base types that have a case of their own in the switch of
  \<^verbatim>\<open>generateGoFieldInfo\<close>.\<close>

definition recognisedBaseTypes :: "string list" where
  "recognisedBaseTypes =
     [''INT'', ''INTEGER'', ''SERIAL'', ''BIGSERIAL'', ''BIGINT'', ''VARCHAR'', ''TEXT'', ''CHAR'',
      ''JSONB'', ''JSON'', ''BOOLEAN'', ''BOOL'', ''TIMESTAMP'', ''DATETIME'', ''DATE'',
      ''DECIMAL'', ''NUMERIC'', ''FLOAT'', ''REAL'', ''DOUBLE'', ''DOUBLE PRECISION'', ''UUID'']"

definition goTypes :: "string list" where
  "goTypes = [''int64'', ''string'', ''[]string'', ''bool'', ''time.Time'', ''float64'']"





text \<open>A key without angle brackets, as every key that the generators bind.\<close>

definition plainKey :: "string \<Rightarrow> bool" where
  "plainKey key = (CHR ''<'' \<notin> set key \<and> CHR ''>'' \<notin> set key)"

text \<open>The schemas of the two end-to-end scenarios.\<close>

definition usersSchema :: "string list" where
  "usersSchema =
     [''CREATE TABLE users ('',
      ''    id BIGSERIAL PRIMARY KEY,'',
      ''    name VARCHAR(255) NOT NULL,'',
      ''    email VARCHAR(255) UNIQUE NOT NULL,'',
      ''    created_at TIMESTAMPTZ DEFAULT NOW()'',
      '');'']"

definition accountsSchema :: "string list" where
  "accountsSchema =
     [''CREATE TABLE accounts ('',
      ''    name TEXT NOT NULL'',
      '');'',
      ''CREATE TABLE sessions ('',
      ''    account_id BIGINT NOT NULL,'',
      ''    token TEXT'',
      '');'']"

section \<open>The primary-key flag of parsed columns\<close>

lemma parseColumnDefinition_rejects:
  "Contains (ToUpper (TrimSuffix (TrimSpace l) '','')) ''PRIMARY KEY'' \<Longrightarrow>
   parseColumnDefinition l = None"
  by (simp add: parseColumnDefinition_def Let_def constraintKeywords_def)

lemma parseColumnDefinition_flag:
  "parseColumnDefinition l = Some c \<Longrightarrow> \<not> IsPrimaryKey c"
  by (auto simp: parseColumnDefinition_def Let_def constraintKeywords_def
           split: list.splits if_splits)

lemma scanLine_clear: "stateClear st \<Longrightarrow> stateClear (scanLine st l)"
  by (auto simp: scanLine_def stateClear_def flagsClear_def Let_def
           dest: parseColumnDefinition_flag split: option.splits)

lemma foldl_scanLine_clear: "stateClear st \<Longrightarrow> stateClear (foldl scanLine st ls)"
  by (induction ls arbitrary: st) (auto intro: scanLine_clear)

lemma generateGoFieldInfo_flag [simp]:
  "IsPrimaryKey (generateGoFieldInfo c) = IsPrimaryKey c"
  by (simp add: generateGoFieldInfo_def)

lemma parseLines_flagsClear: "t \<in> set (parseLines ls) \<Longrightarrow> flagsClear t"
proof -
  have "stateClear (foldl scanLine initialState ls)"
    by (rule foldl_scanLine_clear) (simp add: stateClear_def initialState_def)
  then show "t \<in> set (parseLines ls) \<Longrightarrow> flagsClear t"
    by (auto simp: parseLines_def withFieldInfo_def stateClear_def flagsClear_def)
qed

text \<open>
  Claim C10. Every column that the schema parser produces has its primary-key flag
  equal to false, whatever the lines of the schema file are: a line that contains
  PRIMARY KEY, in any case, is rejected as a constraint line before the statement
  that sets the flag is reached, so the migration generator and the index synthesis
  never see a parsed column marked primary key.
\<close>

theorem parsed_columns_never_primary_key:
  "(\<forall>t \<in> set (parseLines ls). \<forall>c \<in> set (Columns t). \<not> IsPrimaryKey c) \<and>
   (Contains (ToUpper (TrimSuffix (TrimSpace l) '','')) ''PRIMARY KEY'' \<longrightarrow>
      parseColumnDefinition l = None)"
  using parseLines_flagsClear parseColumnDefinition_rejects
  by (auto simp: flagsClear_def)

theorem parsed_columns_never_primary_key_witness:
  "map (map Name \<circ> Columns) (parseLines usersSchema) = [[''name'', ''created_at'']] \<and>
   map (map IsPrimaryKey \<circ> Columns) (parseLines usersSchema) = [[False, False]] \<and>
   parseColumnDefinition ''    id BIGSERIAL PRIMARY KEY,'' = None"
proof -
  have names: "map (map Name \<circ> Columns) (parseLines usersSchema) = [[''name'', ''created_at'']]"
    by code_simp
  have marked: "Contains (ToUpper (TrimSuffix (TrimSpace ''    id BIGSERIAL PRIMARY KEY,'') '',''))
                  ''PRIMARY KEY''"
    by code_simp
  have two: "map (length \<circ> Columns) (parseLines usersSchema) = [2]"
    by code_simp
  from two obtain t where t: "parseLines usersSchema = [t]" and len: "length (Columns t) = 2"
    by (cases "parseLines usersSchema") auto
  from len obtain c d where cols: "Columns t = [c, d]"
    by (cases "Columns t"; cases "tl (Columns t)") auto
  have "\<not> IsPrimaryKey c \<and> \<not> IsPrimaryKey d \<and>
        parseColumnDefinition ''    id BIGSERIAL PRIMARY KEY,'' = None"
    using parsed_columns_never_primary_key
            [of usersSchema "''    id BIGSERIAL PRIMARY KEY,''"] marked t cols
    by simp
  with names t cols show ?thesis by simp
qed

section \<open>Singularisation\<close>

text \<open>
  Claim C4, as amended. Dropping one trailing s is idempotent exactly on the names
  that do not end in ss: applying it twice gives the same as applying it once if and
  only if the name does not end in two letters s.
\<close>

theorem singularize_idempotent_iff:
  "singularize (singularize n) = singularize n \<longleftrightarrow> \<not> HasSuffix n ''ss''"
proof (cases "HasSuffix n ''s''")
  case False
  then have "\<not> HasSuffix n ''ss''"
    by (auto simp: HasSuffix_def suffix_def)
  with False show ?thesis by (simp add: singularize_def)
next
  case True
  then obtain m where n: "n = m @ ''s''" by (auto simp: HasSuffix_def suffix_def)
  have s: "singularize n = m" by (simp add: singularize_def n HasSuffix_def)
  have a: "HasSuffix n ''ss'' \<longleftrightarrow> HasSuffix m ''s''"
    by (auto simp: n HasSuffix_def suffix_def)
  have b: "singularize m = m \<longleftrightarrow> \<not> HasSuffix m ''s''"
    by (auto simp: singularize_def HasSuffix_def suffix_def)
  show ?thesis by (simp add: s a b)
qed

theorem singularize_idempotent_iff_witness:
  "singularize (singularize ''users'') = singularize ''users'' \<and> \<not> HasSuffix ''users'' ''ss''"
proof -
  have "\<not> HasSuffix ''users'' ''ss''" by code_simp
  then show ?thesis
    using singularize_idempotent_iff [of "''users''"] by blast
qed

text \<open>The claim as the specification states it fails on a table named address.\<close>

theorem singularize_not_idempotent:
  "singularize (singularize ''address'') \<noteq> singularize ''address''"
  by code_simp

lemma TrimSuffix_s: "TrimSuffix n ''s'' = singularize n"
  by (simp add: TrimSuffix_def singularize_def)

section \<open>The forward type mapping\<close>

text \<open>
  Claim C9. The forward type mapping assigns a Go type to every column, whatever its
  source type string is, the empty string included: the type assigned is one of the
  six Go types of the mapping and never the empty string, and a base type without a
  case of its own in the switch gets the type string.
\<close>

theorem generateGoFieldInfo_total:
  "GoType (generateGoFieldInfo col) \<in> set goTypes \<and>
   GoType (generateGoFieldInfo col) \<noteq> [] \<and>
   (baseTypeOf (ToUpper (Type col)) \<notin> set recognisedBaseTypes \<longrightarrow>
      GoType (generateGoFieldInfo col) = ''string'')"
  by (simp add: generateGoFieldInfo_def goTypeFor_def goTypes_def recognisedBaseTypes_def)

theorem generateGoFieldInfo_total_witness:
  "GoType (generateGoFieldInfo
     \<lparr> Name = ''shape'', Type = ''geometry(Point)'', IsPrimaryKey = False, IsNullable = True,
       DefaultValue = [], GoType = [], GormTag = [], JSONTag = [] \<rparr>) = ''string'' \<and>
   GoType (generateGoFieldInfo
     \<lparr> Name = ''x'', Type = [], IsPrimaryKey = False, IsNullable = True,
       DefaultValue = [], GoType = [], GormTag = [], JSONTag = [] \<rparr>) = ''string''"
proof -
  have a: "baseTypeOf (ToUpper ''geometry(Point)'') \<notin> set recognisedBaseTypes"
    by code_simp
  have b: "baseTypeOf (ToUpper []) \<notin> set recognisedBaseTypes"
    by code_simp
  show ?thesis
    using a b
      generateGoFieldInfo_total [of "\<lparr> Name = ''shape'', Type = ''geometry(Point)'',
        IsPrimaryKey = False, IsNullable = True, DefaultValue = [], GoType = [],
        GormTag = [], JSONTag = [] \<rparr>"]
      generateGoFieldInfo_total [of "\<lparr> Name = ''x'', Type = [],
        IsPrimaryKey = False, IsNullable = True, DefaultValue = [], GoType = [],
        GormTag = [], JSONTag = [] \<rparr>"]
    by simp
qed

section \<open>A schema without tables\<close>

text \<open>
  Claim C7. When the schema file parses to zero tables, the run ends with the error
  that names the schema file and leaves the file system of the host as it found it:
  no directory is created, no generation step runs and no file is written, whatever
  the operations of the host would have done.
\<close>

theorem no_tables_fails_before_output:
  "parseSQLSchema (openSchema host sqlSchemaFile) = Inr [] \<Longrightarrow>
   createHexagonalArchitecture host moduleName sqlSchemaFile w =
     (Some (NoTablesFound sqlSchemaFile), w)"
  by (simp add: createHexagonalArchitecture_def)

theorem no_tables_fails_before_output_witness:
  "createHexagonalArchitecture
     \<lparr> openSchema = (\<lambda>f. Lines [''-- no tables yet'', ''id BIGSERIAL PRIMARY KEY,'', '');'']),
       mkdirAll = (\<lambda>p n. (True, Suc n)),
       generateAllFiles = (\<lambda>m ts n. (True, Suc n)),
       formatGeneratedFiles = (\<lambda>m n. (True, Suc n)),
       initializeGoModule = (\<lambda>m n. (True, Suc n)) \<rparr>
     ''user-service'' ''schema.sql'' (0 :: nat)
   = (Some (NoTablesFound ''schema.sql''), 0)"
proof -
  have "parseLines [''-- no tables yet'', ''id BIGSERIAL PRIMARY KEY,'', '');''] = []"
    by code_simp
  then show ?thesis
    by (intro no_tables_fails_before_output) simp
qed

section \<open>The columns of the Meta Contract\<close>

text \<open>
  Claim C3, as amended. For the four audit columns created_at, updated_at,
  deleted_at and is_deleted, in every spelling of upper and lower case, the
  domain-model generator and the DTO generator both pass over the column and the
  migration generator takes it as declared. On every column name the DTO generator
  and the migration generator agree. The domain-model generator differs from them on
  id alone: for id in every spelling of upper and lower case the DTO generator
  passes over the column and the migration generator takes it as declared, while
  the field loop of the domain-model generator does not pass over it.
\<close>

theorem meta_contract_predicates:
  "dtoSkips n = migrationRecognises n \<and>
   domainModelSkips n = (dtoSkips n \<and> ToLower n \<noteq> ''id'') \<and>
   (ToLower n \<in> set [''created_at'', ''updated_at'', ''deleted_at'', ''is_deleted''] \<longrightarrow>
      domainModelSkips n \<and> dtoSkips n \<and> migrationRecognises n) \<and>
   (ToLower n = ''id'' \<longrightarrow>
      dtoSkips n \<and> migrationRecognises n \<and> \<not> domainModelSkips n)"
  by (auto simp: dtoSkips_def migrationRecognises_def domainModelSkips_def markMeta_def
                 noMetaFlags_def)

theorem meta_contract_predicates_witness:
  "(domainModelSkips ''Created_AT'' \<and> dtoSkips ''Created_AT'' \<and>
    migrationRecognises ''Created_AT'') \<and>
   (dtoSkips ''Id'' \<and> migrationRecognises ''Id'' \<and> \<not> domainModelSkips ''Id'')"
proof -
  have "ToLower ''Created_AT'' \<in> set [''created_at'', ''updated_at'', ''deleted_at'', ''is_deleted'']"
    by code_simp
  moreover have "ToLower ''Id'' = ''id''"
    by code_simp
  ultimately show ?thesis
    using meta_contract_predicates [of "''Created_AT''"] meta_contract_predicates [of "''Id''"]
    by blast
qed

text \<open>The claim as the specification states it fails on the column id: the DTO
  generator passes over it, the domain-model generator does not.\<close>

theorem meta_contract_id_differs:
  "\<not> (domainModelSkips ''id'' = dtoSkips ''id'' \<and> dtoSkips ''id'' = migrationRecognises ''id'')"
  by code_simp

section \<open>The target case of identifiers\<close>

lemma toLowerChar_underscore [simp]: "toLowerChar c = CHR ''_'' \<longleftrightarrow> c = CHR ''_''"
  by (simp add: toLowerChar_def upperLetters_def lowerLetters_def)



lemma Split_no_sep: "sep \<notin> set a \<Longrightarrow> Split a sep = [a]"
  by (induction a) auto

lemma Split_append_sep: "sep \<notin> set a \<Longrightarrow> Split (a @ sep # b) sep = a # Split b sep"
  by (induction a) auto



lemma toUpperChar_toLowerChar [simp]: "toUpperChar (toLowerChar c) = toUpperChar c"
  by (simp add: toLowerChar_def toUpperChar_def upperLetters_def lowerLetters_def)










section \<open>The order of the migration statements\<close>

lemma createTableAt_word:
  assumes "createTableAt s = Some n"
  shows "\<forall>c \<in> set n. isWord c"
proof -
  from assms have "\<exists>r. n = takeWhile isWord r"
    by (simp only: createTableAt_def Let_def option.distinct option.inject
             split: if_split_asm list.split_asm) blast
  then show ?thesis by (auto dest: set_takeWhileD)
qed

lemma createTableRegex_word: "createTableRegex s = Some n \<Longrightarrow> \<forall>c \<in> set n. isWord c"
  by (induction s) (auto split: option.splits dest: createTableAt_word)

lemma scanLine_wordNamed: "stateWordNamed st \<Longrightarrow> stateWordNamed (scanLine st l)"
  by (auto simp: scanLine_def stateWordNamed_def wordNamed_def Let_def
           dest: createTableRegex_word split: option.splits)

lemma foldl_scanLine_wordNamed: "stateWordNamed st \<Longrightarrow> stateWordNamed (foldl scanLine st ls)"
  by (induction ls arbitrary: st) (auto intro: scanLine_wordNamed)

lemma parseLines_wordNamed: "t \<in> set (parseLines ls) \<Longrightarrow> wordNamed t"
proof -
  have "stateWordNamed (foldl scanLine initialState ls)"
    by (rule foldl_scanLine_wordNamed) (simp add: stateWordNamed_def initialState_def)
  then show "t \<in> set (parseLines ls) \<Longrightarrow> wordNamed t"
    by (auto simp: parseLines_def withFieldInfo_def stateWordNamed_def wordNamed_def)
qed

lemma isWord_not_newline: "isWord c \<Longrightarrow> c \<noteq> CHR 0x0A"
proof -
  have "\<not> isWord (CHR 0x0A)" by code_simp
  then show "isWord c \<Longrightarrow> c \<noteq> CHR 0x0A" by blast
qed

lemma Split_lines:
  "ls \<noteq> [] \<Longrightarrow> \<forall>l \<in> set ls. sep \<notin> set l \<Longrightarrow>
   Split (butlast (concat (map (\<lambda>l. l @ [sep]) ls))) sep = ls"
proof (induction ls)
  case Nil
  then show ?case by simp
next
  case (Cons l ls)
  show ?case
  proof (cases "ls = []")
    case True
    with Cons.prems show ?thesis by (simp add: Split_no_sep butlast_append)
  next
    case False
    then have "concat (map (\<lambda>l. l @ [sep]) ls) \<noteq> []"
      by (cases ls) auto
    then have "butlast (concat (map (\<lambda>l. l @ [sep]) (l # ls)))
               = l @ sep # butlast (concat (map (\<lambda>l. l @ [sep]) ls))"
      by (simp add: butlast_append)
    with Cons False show ?thesis by (simp add: Split_append_sep)
  qed
qed

lemma dropWhile_hd: "xs \<noteq> [] \<Longrightarrow> \<not> P (hd xs) \<Longrightarrow> dropWhile P xs = xs"
  by (cases xs) auto

lemma TrimSpace_lines:
  assumes "ls \<noteq> []"
    and "\<forall>l \<in> set ls. l \<noteq> [] \<and> \<not> isSpace (hd l) \<and> \<not> isSpace (last l)"
  shows "TrimSpace (concat (map (\<lambda>l. l @ nl) ls)) = butlast (concat (map (\<lambda>l. l @ nl) ls))"
proof -
  from assms(1) obtain ks k where ls: "ls = ks @ [k]"
    by (cases ls rule: rev_cases) auto
  define body where "body = concat (map (\<lambda>l. l @ nl) ks) @ k"
  have whole: "concat (map (\<lambda>l. l @ nl) ls) = body @ nl"
    by (simp add: ls body_def)
  from assms(2) ls have k: "k \<noteq> []" "\<not> isSpace (last k)" by auto
  have front: "body \<noteq> [] \<and> \<not> isSpace (hd body)"
  proof (cases ks)
    case Nil
    with assms(2) ls show ?thesis by (simp add: body_def)
  next
    case (Cons a as)
    with assms(2) ls have "a \<noteq> []" "\<not> isSpace (hd a)" by auto
    with Cons show ?thesis by (simp add: body_def)
  qed
  have ending: "last body = last k" "body \<noteq> []"
    using k by (simp_all add: body_def)
  have "dropWhile isSpace (body @ nl) = body @ nl"
    using front by (intro dropWhile_hd) auto
  moreover have "dropWhile isSpace (rev (body @ nl)) = rev body"
  proof -
    have "isSpace (CHR 0x0A)" by (simp add: isSpace_def)
    then have "dropWhile isSpace (rev (body @ nl)) = dropWhile isSpace (rev body)"
      by (simp add: nl_def)
    also have "\<dots> = rev body"
      using ending k by (intro dropWhile_hd) (auto simp: hd_rev)
    finally show ?thesis .
  qed
  ultimately have "TrimSpace (body @ nl) = body"
    by (simp add: TrimSpace_def)
  then show ?thesis
    unfolding whole by (simp add: nl_def)
qed

lemma dropTableLine_shape:
  "dropTableLine t schema \<noteq> [] \<and> \<not> isSpace (hd (dropTableLine t schema)) \<and>
   \<not> isSpace (last (dropTableLine t schema))"
  by (simp add: dropTableLine_def isSpace_def)

lemma dropTableLine_one_line:
  "CHR 0x0A \<notin> set schema \<Longrightarrow> CHR 0x0A \<notin> set (TableName t) \<Longrightarrow>
   CHR 0x0A \<notin> set (dropTableLine t schema)"
  by (simp add: dropTableLine_def qualifiedName_def)

lemma reversedDrops_rev:
  assumes "ts \<noteq> []" and "CHR 0x0A \<notin> set schema"
    and "\<forall>t \<in> set ts. CHR 0x0A \<notin> set (TableName t)"
  shows "reversedDrops ts schema = concat (map (\<lambda>t. dropTableLine t schema @ nl) (rev ts))"
proof -
  define ls where "ls = map (\<lambda>t. dropTableLine t schema) ts"
  have drops: "tableDrops ts schema = concat (map (\<lambda>l. l @ nl) ls)"
    by (simp add: tableDrops_def ls_def comp_def)
  have nonempty: "ls \<noteq> []" using assms(1) by (simp add: ls_def)
  have shape: "\<forall>l \<in> set ls. l \<noteq> [] \<and> \<not> isSpace (hd l) \<and> \<not> isSpace (last l)"
    using dropTableLine_shape by (auto simp: ls_def)
  have single: "\<forall>l \<in> set ls. CHR 0x0A \<notin> set l"
    using assms(2,3) dropTableLine_one_line by (auto simp: ls_def)
  have "Split (TrimSpace (tableDrops ts schema)) (CHR 0x0A) = ls"
    using Split_lines [OF nonempty single] TrimSpace_lines [OF nonempty shape]
    by (simp add: drops nl_def)
  moreover have "filter (\<lambda>l. l \<noteq> []) (rev ls) = rev ls"
    using shape by (auto intro: filter_True)
  ultimately have "reversedDrops ts schema = concat (map (\<lambda>l. l @ nl) (rev ls))"
    by (simp add: reversedDrops_def)
  then show ?thesis
    by (simp add: ls_def rev_map comp_def)
qed

lemma migrationSchema_one_line: "CHR 0x0A \<notin> set (migrationSchema m)"
  by (simp add: migrationSchema_def)

lemma TrimSuffix_keeps:
  assumes "p \<noteq> []" and "last p \<noteq> CHR '',''"
  shows "prefix p (TrimSuffix (p @ CHR 0x0A # rest) [CHR '','', CHR 0x0A])"
proof (cases "suffix [CHR '','', CHR 0x0A] (p @ CHR 0x0A # rest)")
  case False
  then show ?thesis by (simp add: TrimSuffix_def HasSuffix_def)
next
  case True
  have "rest \<noteq> []"
  proof
    assume "rest = []"
    with True have "suffix ([CHR '',''] @ [CHR 0x0A]) (p @ [CHR 0x0A])" by simp
    then have "suffix [CHR '',''] p" by (simp only: snoc_suffix_snoc)
    then have "last p = CHR '',''" by (auto simp: suffix_def)
    with assms(2) show False by simp
  qed
  then obtain r rs where "rest = r # rs" by (cases rest) auto
  with True show ?thesis by (simp add: TrimSuffix_def HasSuffix_def)
qed

lemma generateCreateTable_prefix:
  "prefix (''CREATE TABLE IF NOT EXISTS '' @ qualifiedName t schema @ '' ('')
          (generateCreateTable t schema)"
proof -
  define p where "p = ''CREATE TABLE IF NOT EXISTS '' @ qualifiedName t schema @ '' (''"
  have p: "p \<noteq> []" "last p \<noteq> CHR '',''" by (simp_all add: p_def)
  define rest where "rest =
      (if \<not> hasID (metaFlagsOf (Columns t)) then ''    id BIGSERIAL PRIMARY KEY,'' @ nl else [])
      @ concat (map (\<lambda>col. ''    '' @ generateColumnDefinition col @ '','' @ nl) (Columns t))
      @ (if \<not> hasCreatedAt (metaFlagsOf (Columns t))
         then ''    created_at TIMESTAMPTZ DEFAULT NOW(),'' @ nl else [])
      @ (if \<not> hasUpdatedAt (metaFlagsOf (Columns t))
         then ''    updated_at TIMESTAMPTZ DEFAULT NOW(),'' @ nl else [])
      @ (if \<not> hasDeletedAt (metaFlagsOf (Columns t)) then ''    deleted_at TIMESTAMPTZ,'' @ nl else [])"
  have sql: "generateCreateTable t schema =
      (if \<not> hasIsDeleted (metaFlagsOf (Columns t))
       then (p @ CHR 0x0A # rest) @ ''    is_deleted BOOLEAN DEFAULT FALSE'' @ nl
       else TrimSuffix (p @ CHR 0x0A # rest) [CHR '','', CHR 0x0A] @ nl) @ '');''"
    unfolding generateCreateTable_def Let_def p_def rest_def nl_def by simp
  have "prefix p (generateCreateTable t schema)"
  proof (cases "hasIsDeleted (metaFlagsOf (Columns t))")
    case False
    with sql show ?thesis by simp
  next
    case True
    from TrimSuffix_keeps [OF p] obtain zs where
      "TrimSuffix (p @ CHR 0x0A # rest) [CHR '','', CHR 0x0A] = p @ zs"
      by (auto simp: prefix_def)
    with sql True show ?thesis by simp
  qed
  then show ?thesis by (simp only: p_def)
qed

lemma generateIndexes_contains:
  "col \<in> set (Columns t) \<Longrightarrow> indexed col \<Longrightarrow>
   \<exists>before after. generateIndexes t schema = before @ createIndexLine t schema col @ after"
proof -
  assume "col \<in> set (Columns t)" "indexed col"
  then have "col \<in> set (filter indexed (Columns t))" by simp
  then obtain xs ys where "filter indexed (Columns t) = xs @ col # ys"
    by (meson split_list)
  then show ?thesis
    by (auto simp: generateIndexes_def)
qed

lemma indexed_foreign_key:
  "Contains (ToLower (Name col)) ''_id'' \<Longrightarrow> \<not> IsPrimaryKey col \<Longrightarrow> indexed col"
  by (simp add: indexed_def Let_def)

text \<open>
  Claim C6. For the tables that the parser reads from any schema file, at least one,
  and the schema name chosen for any module: the bindings of the migration template
  hold the CREATE TABLE statements in the order of the tables, each opening with
  CREATE TABLE IF NOT EXISTS and the name of its table, and the DROP TABLE
  statements in exactly the reverse order; every parsed column whose lower-cased
  name contains _id has its CREATE INDEX statement in the index creations. The
  witness is the scenario of the tables accounts and sessions.
\<close>

theorem migration_table_order:
  assumes "ts = parseLines ls" and "ts \<noteq> []" and "schema = migrationSchema moduleName"
  shows "\<exists>vars. gooseMigrationVariables ts schema = Some vars \<and>
      map_of vars ''table_creations''
        = Some (concat (map (\<lambda>t. generateCreateTable t schema @ nl) ts)) \<and>
      map_of vars ''index_creations''
        = Some (concat (map (\<lambda>t. generateIndexes t schema) ts)) \<and>
      map_of vars ''table_drops''
        = Some (concat (map (\<lambda>t. dropTableLine t schema @ nl) (rev ts))) \<and>
      (\<forall>t \<in> set ts. prefix (''CREATE TABLE IF NOT EXISTS '' @ qualifiedName t schema @ '' ('')
                              (generateCreateTable t schema)) \<and>
      (\<forall>t \<in> set ts. \<forall>col \<in> set (Columns t). Contains (ToLower (Name col)) ''_id'' \<longrightarrow>
         (\<exists>before after.
            generateIndexes t schema = before @ createIndexLine t schema col @ after))"
proof -
  have names: "\<forall>t \<in> set ts. CHR 0x0A \<notin> set (TableName t)"
    using parseLines_wordNamed isWord_not_newline assms(1)
    by (fastforce simp: wordNamed_def)
  have schema: "CHR 0x0A \<notin> set schema"
    using migrationSchema_one_line assms(3) by simp
  have drops: "reversedDrops ts schema = concat (map (\<lambda>t. dropTableLine t schema @ nl) (rev ts))"
    by (rule reversedDrops_rev [OF assms(2) schema names])
  have idx: "\<forall>t \<in> set ts. \<forall>col \<in> set (Columns t). Contains (ToLower (Name col)) ''_id'' \<longrightarrow>
         (\<exists>before after.
            generateIndexes t schema = before @ createIndexLine t schema col @ after)"
  proof (intro ballI impI)
    fix t col
    assume t: "t \<in> set ts" and col: "col \<in> set (Columns t)"
      and fk: "Contains (ToLower (Name col)) ''_id''"
    from t assms(1) have "flagsClear t" by (simp add: parseLines_flagsClear)
    with col have "\<not> IsPrimaryKey col" by (simp add: flagsClear_def)
    with fk have "indexed col" by (rule indexed_foreign_key)
    with col show "\<exists>before after.
            generateIndexes t schema = before @ createIndexLine t schema col @ after"
      by (rule generateIndexes_contains)
  qed
  have vars: "gooseMigrationVariables ts schema \<noteq> None"
    using assms(2) by (simp add: gooseMigrationVariables_def)
  then obtain vars where v: "gooseMigrationVariables ts schema = Some vars" by auto
  with assms(2) have
    "map_of vars ''table_creations'' = Some (tableCreations ts schema)"
    "map_of vars ''index_creations'' = Some (concat (map (\<lambda>t. generateIndexes t schema) ts))"
    "map_of vars ''table_drops'' = Some (reversedDrops ts schema)"
    by (auto simp: gooseMigrationVariables_def)
  with v drops idx generateCreateTable_prefix show ?thesis
    by (auto simp: tableCreations_def)
qed

theorem migration_table_order_witness:
  "\<exists>vars. gooseMigrationVariables (parseLines accountsSchema) (migrationSchema ''shop'') = Some vars \<and>
     map TableName (parseLines accountsSchema) = [''accounts'', ''sessions''] \<and>
     map_of vars ''table_drops''
       = Some ''DROP TABLE IF EXISTS sessions;\<newline>DROP TABLE IF EXISTS accounts;\<newline>'' \<and>
     map_of vars ''index_creations''
       = Some ''CREATE INDEX IF NOT EXISTS idx_sessions_account_id ON sessions(account_id);\<newline>''"
proof -
  have ne: "parseLines accountsSchema \<noteq> []" by code_simp
  have a: "map TableName (parseLines accountsSchema) = [''accounts'', ''sessions'']"
    by code_simp
  have b: "concat (map (\<lambda>t. dropTableLine t (migrationSchema ''shop'') @ nl)
             (rev (parseLines accountsSchema)))
           = ''DROP TABLE IF EXISTS sessions;\<newline>DROP TABLE IF EXISTS accounts;\<newline>''"
    by code_simp
  have c: "concat (map (\<lambda>t. generateIndexes t (migrationSchema ''shop'')) (parseLines accountsSchema))
           = ''CREATE INDEX IF NOT EXISTS idx_sessions_account_id ON sessions(account_id);\<newline>''"
    by code_simp
  from migration_table_order [OF refl ne refl, of "''shop''"] a b c
  show ?thesis by auto
qed

section \<open>Placeholders without a binding\<close>

lemma ReplaceAll_Nil: "old \<noteq> [] \<Longrightarrow> ReplaceAll [] old new = []"
  by (simp add: ReplaceAll.simps)

lemma ReplaceAll_Cons_other:
  "old \<noteq> [] \<Longrightarrow> \<not> prefix old (c # cs) \<Longrightarrow>
   ReplaceAll (c # cs) old new = c # ReplaceAll cs old new"
  by (simp add: ReplaceAll.simps [of "c # cs"])

lemma ReplaceAll_match:
  "old \<noteq> [] \<Longrightarrow> prefix old s \<Longrightarrow>
   ReplaceAll s old new = new @ ReplaceAll (drop (length old) s) old new"
  by (subst ReplaceAll.simps) auto

lemma ReplaceAll_skip:
  "CHR ''<'' \<notin> set x \<Longrightarrow>
   ReplaceAll (x @ b) (CHR ''<'' # r) v = x @ ReplaceAll b (CHR ''<'' # r) v"
  by (induction x) (auto simp: ReplaceAll_Cons_other)

lemma closed_keys_equal:
  "CHR ''>'' \<notin> set j \<Longrightarrow> CHR ''>'' \<notin> set k \<Longrightarrow>
   prefix (j @ ''>'') (k @ ''>'' @ b) \<Longrightarrow> j = k"
proof (induction j arbitrary: k)
  case Nil
  then show ?case by (cases k) auto
next
  case (Cons c j)
  then show ?case by (cases k) auto
qed

lemma placeholder_no_match:
  "plainKey j \<Longrightarrow> plainKey k \<Longrightarrow> j \<noteq> k \<Longrightarrow> \<not> prefix (placeholder j) (placeholder k @ b)"
  using closed_keys_equal [of j k b] by (auto simp: placeholder_def plainKey_def)

lemma match_stays_left:
  assumes "plainKey j" and "prefix (placeholder j) (a @ placeholder k @ b)" and "a \<noteq> []"
  shows "prefix (placeholder j) a"
proof -
  from assms(2) consider "prefix (placeholder j) a"
    | us where "placeholder j = a @ us" "prefix us (placeholder k @ b)"
    by (auto simp: prefix_append)
  then show ?thesis
  proof cases
    case 1
    then show ?thesis .
  next
    case 2
    show ?thesis
    proof (cases us)
      case Nil
      with 2 show ?thesis by simp
    next
      case (Cons u us')
      with 2(2) have "u = CHR ''<''" by (simp add: placeholder_def)
      with 2(1) Cons assms(3) have "CHR ''<'' \<in> set (tl (placeholder j))"
        by (cases a) auto
      with assms(1) show ?thesis by (simp add: placeholder_def plainKey_def)
    qed
  qed
qed

lemma ReplaceAll_around:
  assumes "plainKey j" and "plainKey k" and "j \<noteq> k"
  shows "ReplaceAll (a @ placeholder k @ b) (placeholder j) v
         = ReplaceAll a (placeholder j) v @ placeholder k @ ReplaceAll b (placeholder j) v"
proof (induction a "placeholder j" v rule: ReplaceAll.induct)
  case (1 s new)
  have old: "placeholder j \<noteq> []" by (simp add: placeholder_def)
  show ?case
  proof (cases "s = []")
    case True
    have "ReplaceAll (placeholder k @ b) (placeholder j) new
          = CHR ''<'' # ReplaceAll ((k @ ''>'') @ b) (placeholder j) new"
      using placeholder_no_match [OF assms, of b] old
      by (simp add: placeholder_def ReplaceAll_Cons_other)
    also have "\<dots> = CHR ''<'' # (k @ ''>'') @ ReplaceAll b (placeholder j) new"
      using ReplaceAll_skip [of "k @ ''>''" b "j @ ''>''" new] assms(2)
      by (simp add: placeholder_def plainKey_def)
    finally show ?thesis
      using True old by (simp add: ReplaceAll_Nil placeholder_def)
  next
    case False
    then obtain c cs where s: "s = c # cs" by (cases s) auto
    show ?thesis
    proof (cases "prefix (placeholder j) (s @ placeholder k @ b)")
      case True
      have left: "prefix (placeholder j) s"
        by (rule match_stays_left [OF assms(1) True False])
      then have "length (placeholder j) \<le> length s" by (rule prefix_length_le)
      then have "drop (length (placeholder j)) (s @ placeholder k @ b)
                 = drop (length (placeholder j)) s @ placeholder k @ b"
        by simp
      with 1(1) [OF old False left] True left old show ?thesis
        by (simp add: ReplaceAll_match)
    next
      case no: False
      then have noleft: "\<not> prefix (placeholder j) s"
        by (auto simp: prefix_def)
      from 1(2) [OF old False noleft] no noleft old s show ?thesis
        by (simp add: ReplaceAll_Cons_other)
    qed
  qed
qed

lemma replaceTemplateVariables_around:
  assumes "plainKey k" and "\<forall>j \<in> set (map fst vars). plainKey j \<and> j \<noteq> k"
  shows "replaceTemplateVariables (a @ placeholder k @ b) vars
         = replaceTemplateVariables a vars @ placeholder k @ replaceTemplateVariables b vars"
  using assms(2)
proof (induction vars arbitrary: a b)
  case Nil
  then show ?case by (simp add: replaceTemplateVariables_def)
next
  case (Cons kv vars)
  obtain j v where kv: "kv = (j, v)" by (cases kv)
  with Cons.prems have j: "plainKey j" "j \<noteq> k" by auto
  from Cons.prems have rest: "\<forall>j \<in> set (map fst vars). plainKey j \<and> j \<noteq> k" by simp
  show ?case
    using Cons.IH [OF rest] ReplaceAll_around [OF j(1) assms(1) j(2)]
    by (simp add: replaceTemplateVariables_def kv)
qed

text \<open>
  Claim C5, as amended. When the keys of the bindings and the key of a placeholder
  contain no angle bracket and the key is not bound, the placeholder is left
  verbatim where it stands: the rendering of a template around an occurrence of it
  is the rendering of the text before it, the placeholder itself, and the rendering
  of the text after it, for every order in which the bindings are applied.
  Rendering fails only when the template cannot be read, never for a placeholder.
\<close>

theorem unresolved_placeholder_verbatim:
  assumes "plainKey key" and "key \<notin> set (map fst variables)"
    and "\<forall>k \<in> set (map fst variables). plainKey k"
  shows "replaceTemplateVariables (before @ placeholder key @ after) variables
           = replaceTemplateVariables before variables @ placeholder key
             @ replaceTemplateVariables after variables \<and>
         ((\<exists>err. processTemplate loadTemplate name variables = Inl err)
            \<longleftrightarrow> loadTemplate name = None)"
proof -
  from assms(2,3) have "\<forall>j \<in> set (map fst variables). plainKey j \<and> j \<noteq> key"
    by auto
  with assms(1) have "replaceTemplateVariables (before @ placeholder key @ after) variables
           = replaceTemplateVariables before variables @ placeholder key
             @ replaceTemplateVariables after variables"
    by (rule replaceTemplateVariables_around)
  moreover have "(\<exists>err. processTemplate loadTemplate name variables = Inl err)
            \<longleftrightarrow> loadTemplate name = None"
    by (auto simp: processTemplate_def split: option.splits)
  ultimately show ?thesis by blast
qed

theorem unresolved_placeholder_verbatim_witness:
  "replaceTemplateVariables ''type <struct_name> struct {<fields>}'' [(''fields'', ''ID int64'')]
     = ''type <struct_name> struct {ID int64}'' \<and>
   processTemplate (\<lambda>n. Some ''type <struct_name> struct {<fields>}'') ''dto''
       [(''fields'', ''ID int64'')]
     = Inr ''type <struct_name> struct {ID int64}''"
proof -
  have k: "plainKey ''struct_name''" by code_simp
  have a: "''struct_name'' \<notin> set (map fst [(''fields'', ''ID int64'')])" by code_simp
  have b: "\<forall>k \<in> set (map fst [(''fields'', ''ID int64'')]). plainKey k" by code_simp
  have l: "replaceTemplateVariables ''type '' [(''fields'', ''ID int64'')] = ''type ''"
    by code_simp
  have r: "replaceTemplateVariables '' struct {<fields>}'' [(''fields'', ''ID int64'')]
           = '' struct {ID int64}''"
    by code_simp
  have t: "''type '' @ placeholder ''struct_name'' @ '' struct {<fields>}''
           = ''type <struct_name> struct {<fields>}''"
    by (simp add: placeholder_def)
  from unresolved_placeholder_verbatim [OF k a b, of "''type ''" "'' struct {<fields>}''"]
  have "replaceTemplateVariables ''type <struct_name> struct {<fields>}'' [(''fields'', ''ID int64'')]
     = ''type <struct_name> struct {ID int64}''"
    by (simp only: t l r) (simp add: placeholder_def)
  then show ?thesis by (simp add: processTemplate_def)
qed

text \<open>The claim as the specification states it, for every binding set, fails when a
  bound key contains angle brackets: its placeholder then overlaps the unbound one.\<close>

theorem unresolved_placeholder_overlap:
  "''a'' \<notin> set (map fst [(''a><b'', ''x'')]) \<and>
   Contains ''<a><b>'' (placeholder ''a'') \<and>
   replaceTemplateVariables ''<a><b>'' [(''a><b'', ''x'')] = ''x'' \<and>
   \<not> Contains (replaceTemplateVariables ''<a><b>'' [(''a><b'', ''x'')]) (placeholder ''a'')"
  by code_simp

section \<open>The users scenario\<close>

text \<open>
  Claim C2 at the line that declares the column id of the users scenario: the line
  holds PRIMARY KEY after the type of the column, and the parser yields no column
  for it, while the line of the column name is parsed with the nullable flag cleared.
\<close>

theorem primary_key_column_line_skipped:
  "parseColumnDefinition ''    id BIGSERIAL PRIMARY KEY,'' = None \<and>
   parseColumnDefinition ''    name VARCHAR(255) NOT NULL,'' =
     Some \<lparr> Name = ''name'', Type = ''VARCHAR(255)'', IsPrimaryKey = False,
            IsNullable = False, DefaultValue = [], GoType = [], GormTag = [],
            JSONTag = [] \<rparr>"
  by code_simp

text \<open>
  Claim C1 at the users scenario: the parser keeps the columns name and created_at
  only, so the entity User has the embedded base entity and the field Name, the DTO
  has the fields ID and Name, and neither has a field Email.
\<close>

theorem users_scenario_loses_email:
  \<open>map (map Name \<circ> Columns) (parseLines usersSchema) = [[''name'', ''created_at'']] \<and>
   map structNameOf (parseLines usersSchema) = [''User''] \<and>
   map domainModelFields (parseLines usersSchema) =
     [tab @ ''MetaField'' @ nl
      @ tab @ ''Name string `gorm:"column:name;not null" json:"name,omitempty"`'' @ nl] \<and>
   map dtoFields (parseLines usersSchema) =
     [tab @ ''ID int64 `json:"id,omitempty"`'' @ nl
      @ tab @ ''Name string `json:"name,omitempty"`'' @ nl]\<close>
  by code_simp

end
